theory Spec2Isabelle
  imports Main
begin

section \<open>The HTTP handlers of app/api/routes/events.py\<close>

subsection \<open>Status codes, exceptions and responses\<close>

text \<open>
  The status constants are those of \<open>fastapi.status\<close>. An \<open>HTTPException\<close> raised by a
  handler is the \<open>Inl\<close> branch of the handler's result; a handler that returns normally
  answers with the status of its route decorator, which is \<open>HTTP_200_OK\<close> on every route.
\<close>

definition HTTP_200_OK :: nat where
  "HTTP_200_OK = 200"

definition HTTP_400_BAD_REQUEST :: nat where
  "HTTP_400_BAD_REQUEST = 400"

definition HTTP_404_NOT_FOUND :: nat where
  "HTTP_404_NOT_FOUND = 404"

definition HTTP_409_CONFLICT :: nat where
  "HTTP_409_CONFLICT = 409"

datatype http_exception = HTTPException (status_code: nat) (detail: string)

text \<open>
  The module \<open>app.resources.strings\<close> is not among the sources: its three message
  constants are a parameter of every handler.
\<close>

record strings =
  EVENT_IS_EXISTS :: string
  EVENT_CREATE_ERROR :: string
  EVENT_DOES_NOT_EXIST :: string

text \<open>The field \<open>id\<close> of \<open>User\<close> is named \<open>user_id\<close>, \<open>id\<close> being the identity of HOL.\<close>

record user =
  user_id :: int

text \<open>
  \<open>EventCreate\<close> and \<open>EventUpdate\<close> are read through \<open>request.title\<close> and handed whole
  (\<open>**request.__dict__\<close>) to the repository: a request is any record with a \<open>title\<close>.
\<close>

record 't event_request =
  title :: 't

record events_filter =
  limit :: int
  offset :: int

datatype 'e payload = EventResponse 'e | EventsResponse "'e list"

datatype 'e wrapper_response = WrapperResponse "'e payload option"

type_synonym 'e response = "http_exception + 'e wrapper_response"

fun response_status :: "'e response \<Rightarrow> nat" where
  "response_status (Inl e) = status_code e"
| "response_status (Inr _) = HTTP_200_OK"

subsection \<open>The event repository as the handlers use it\<close>

text \<open>
  \<open>EventRepository\<close> is an external collaborator. It is a parameter here: a record of
  its six operations over a repository state \<open>'r\<close>. The three queries return a record or
  the absence indicator \<open>None\<close> (the handlers test the result for truth, and \<open>None\<close> is
  the one falsy result) and leave the state alone; create and update return the
  record or \<open>None\<close> together with the new state; delete returns the new state.
\<close>

record ('r, 't, 'q, 'e) event_repository =
  repo_get_event_by_title :: "'r \<Rightarrow> 't \<Rightarrow> 'e option"
  repo_get_event_by_id :: "'r \<Rightarrow> int \<Rightarrow> 'e option"
  repo_get_events :: "'r \<Rightarrow> int \<Rightarrow> int \<Rightarrow> 'e list"
  repo_create_event_by_user_id :: "'r \<Rightarrow> int \<Rightarrow> 'q \<Rightarrow> 'e option \<times> 'r"
  repo_update_event_by_id :: "'r \<Rightarrow> int \<Rightarrow> int \<Rightarrow> 'q \<Rightarrow> 'e option \<times> 'r"
  repo_delete_event_by_id :: "'r \<Rightarrow> int \<Rightarrow> int \<Rightarrow> 'r"

text \<open>
  Every call a handler makes on the repository is recorded, in order, next to the
  repository state, so that "the handler never calls create" is a statement about
  the record of calls and not only about the state.
\<close>

datatype ('t, 'q) repository_call =
    Get_event_by_title 't
  | Get_event_by_id int
  | Get_events int int
  | Create_event_by_user_id int 'q
  | Update_event_by_id int int 'q
  | Delete_event_by_id int int

type_synonym ('r, 't, 'q) db = "'r \<times> ('t, 'q) repository_call list"

definition await_get_event_by_title ::
  "('r, 't, 'q, 'e) event_repository \<Rightarrow> 't \<Rightarrow> ('r, 't, 'q) db \<Rightarrow> 'e option \<times> ('r, 't, 'q) db" where
  "await_get_event_by_title R t \<sigma> =
     (repo_get_event_by_title R (fst \<sigma>) t, (fst \<sigma>, snd \<sigma> @ [Get_event_by_title t]))"

definition await_get_event_by_id ::
  "('r, 't, 'q, 'e) event_repository \<Rightarrow> int \<Rightarrow> ('r, 't, 'q) db \<Rightarrow> 'e option \<times> ('r, 't, 'q) db" where
  "await_get_event_by_id R i \<sigma> =
     (repo_get_event_by_id R (fst \<sigma>) i, (fst \<sigma>, snd \<sigma> @ [Get_event_by_id i]))"

definition await_get_events ::
  "('r, 't, 'q, 'e) event_repository \<Rightarrow> int \<Rightarrow> int \<Rightarrow> ('r, 't, 'q) db \<Rightarrow> 'e list \<times> ('r, 't, 'q) db" where
  "await_get_events R l off \<sigma> =
     (repo_get_events R (fst \<sigma>) l off, (fst \<sigma>, snd \<sigma> @ [Get_events l off]))"

definition await_create_event_by_user_id ::
  "('r, 't, 'q, 'e) event_repository \<Rightarrow> int \<Rightarrow> 'q \<Rightarrow> ('r, 't, 'q) db \<Rightarrow> 'e option \<times> ('r, 't, 'q) db" where
  "await_create_event_by_user_id R u q \<sigma> =
     (case repo_create_event_by_user_id R (fst \<sigma>) u q of
        (event, r') \<Rightarrow> (event, (r', snd \<sigma> @ [Create_event_by_user_id u q])))"

definition await_update_event_by_id ::
  "('r, 't, 'q, 'e) event_repository \<Rightarrow> int \<Rightarrow> int \<Rightarrow> 'q \<Rightarrow> ('r, 't, 'q) db \<Rightarrow> 'e option \<times> ('r, 't, 'q) db" where
  "await_update_event_by_id R u i q \<sigma> =
     (case repo_update_event_by_id R (fst \<sigma>) u i q of
        (event, r') \<Rightarrow> (event, (r', snd \<sigma> @ [Update_event_by_id u i q])))"

definition await_delete_event_by_id ::
  "('r, 't, 'q, 'e) event_repository \<Rightarrow> int \<Rightarrow> int \<Rightarrow> ('r, 't, 'q) db \<Rightarrow> ('r, 't, 'q) db" where
  "await_delete_event_by_id R u i \<sigma> =
     (repo_delete_event_by_id R (fst \<sigma>) u i, snd \<sigma> @ [Delete_event_by_id u i])"

subsection \<open>The five CRUD handlers\<close>

text \<open>\<open>POST /events\<close>, lines 34 to 47.\<close>

definition create_event ::
  "('r, 't, ('t, 'a) event_request_scheme, 'e) event_repository \<Rightarrow> strings \<Rightarrow>
   ('t, 'a) event_request_scheme \<Rightarrow> user \<Rightarrow> ('r, 't, ('t, 'a) event_request_scheme) db \<Rightarrow>
   'e response \<times> ('r, 't, ('t, 'a) event_request_scheme) db" where
  "create_event R S request usr \<sigma> =
     (case await_get_event_by_title R (title request) \<sigma> of
        (Some _, \<sigma>1) \<Rightarrow> (Inl (HTTPException HTTP_409_CONFLICT (EVENT_IS_EXISTS S)), \<sigma>1)
      | (None, \<sigma>1) \<Rightarrow>
          (case await_create_event_by_user_id R (user_id usr) request \<sigma>1 of
             (None, \<sigma>2) \<Rightarrow> (Inl (HTTPException HTTP_400_BAD_REQUEST (EVENT_CREATE_ERROR S)), \<sigma>2)
           | (Some event, \<sigma>2) \<Rightarrow> (Inr (WrapperResponse (Some (EventResponse event))), \<sigma>2)))"

text \<open>\<open>GET /events\<close>, lines 50 to 58.\<close>

definition get_events_by_filter ::
  "('r, 't, 'q, 'e) event_repository \<Rightarrow> events_filter \<Rightarrow> ('r, 't, 'q) db \<Rightarrow>
   'e response \<times> ('r, 't, 'q) db" where
  "get_events_by_filter R events_filter \<sigma> =
     (case await_get_events R (limit events_filter) (offset events_filter) \<sigma> of
        (events, \<sigma>1) \<Rightarrow> (Inr (WrapperResponse (Some (EventsResponse events))), \<sigma>1))"

text \<open>\<open>GET /events/{event_id}\<close>, lines 61 to 71.\<close>

definition get_event_by_id ::
  "('r, 't, 'q, 'e) event_repository \<Rightarrow> strings \<Rightarrow> int \<Rightarrow> user \<Rightarrow> ('r, 't, 'q) db \<Rightarrow>
   'e response \<times> ('r, 't, 'q) db" where
  "get_event_by_id R S event_id usr \<sigma> =
     (case await_get_event_by_id R event_id \<sigma> of
        (None, \<sigma>1) \<Rightarrow> (Inl (HTTPException HTTP_404_NOT_FOUND (EVENT_DOES_NOT_EXIST S)), \<sigma>1)
      | (Some event, \<sigma>1) \<Rightarrow> (Inr (WrapperResponse (Some (EventResponse event))), \<sigma>1))"

text \<open>\<open>PATCH /events/{event_id}\<close>, lines 74 to 91.\<close>

definition update_event_by_id ::
  "('r, 't, ('t, 'a) event_request_scheme, 'e) event_repository \<Rightarrow> strings \<Rightarrow>
   ('t, 'a) event_request_scheme \<Rightarrow> int \<Rightarrow> user \<Rightarrow> ('r, 't, ('t, 'a) event_request_scheme) db \<Rightarrow>
   'e response \<times> ('r, 't, ('t, 'a) event_request_scheme) db" where
  "update_event_by_id R S request event_id usr \<sigma> =
     (case await_get_event_by_title R (title request) \<sigma> of
        (Some _, \<sigma>1) \<Rightarrow> (Inl (HTTPException HTTP_409_CONFLICT (EVENT_IS_EXISTS S)), \<sigma>1)
      | (None, \<sigma>1) \<Rightarrow>
          (case await_get_event_by_id R event_id \<sigma>1 of
             (None, \<sigma>2) \<Rightarrow> (Inl (HTTPException HTTP_404_NOT_FOUND (EVENT_DOES_NOT_EXIST S)), \<sigma>2)
           | (Some _, \<sigma>2) \<Rightarrow>
               (case await_update_event_by_id R (user_id usr) event_id request \<sigma>2 of
                  (None, \<sigma>3) \<Rightarrow> (Inl (HTTPException HTTP_400_BAD_REQUEST (EVENT_CREATE_ERROR S)), \<sigma>3)
                | (Some event, \<sigma>3) \<Rightarrow> (Inr (WrapperResponse (Some (EventResponse event))), \<sigma>3))))"

text \<open>\<open>DELETE /events/{event_id}\<close>, lines 94 to 105.\<close>

definition delete_event_by_id ::
  "('r, 't, 'q, 'e) event_repository \<Rightarrow> strings \<Rightarrow> int \<Rightarrow> user \<Rightarrow> ('r, 't, 'q) db \<Rightarrow>
   'e response \<times> ('r, 't, 'q) db" where
  "delete_event_by_id R S event_id usr \<sigma> =
     (case await_get_event_by_id R event_id \<sigma> of
        (None, \<sigma>1) \<Rightarrow> (Inl (HTTPException HTTP_409_CONFLICT (EVENT_DOES_NOT_EXIST S)), \<sigma>1)
      | (Some _, \<sigma>1) \<Rightarrow> (Inr (WrapperResponse None), await_delete_event_by_id R (user_id usr) event_id \<sigma>1))"

subsection \<open>An in-memory repository to run the handlers on\<close>

text \<open>
  A stand-in for the database, used only to evaluate the handlers on concrete
  requests. Events are kept in a list; creation refuses an empty title, which gives
  an input on which creation returns no record.
\<close>

record event =
  stored_id :: int
  stored_title :: string
  stored_owner :: int

definition memory_repository ::
  "(event list, string, string event_request, event) event_repository" where
  "memory_repository =
     \<lparr> repo_get_event_by_title = (\<lambda>r t. find (\<lambda>e. stored_title e = t) r),
       repo_get_event_by_id = (\<lambda>r i. find (\<lambda>e. stored_id e = i) r),
       repo_get_events = (\<lambda>r l off. take (nat l) (drop (nat off) r)),
       repo_create_event_by_user_id = (\<lambda>r u q.
          if title q = [] then (None, r)
          else (let e = \<lparr> stored_id = int (length r) + 1, stored_title = title q, stored_owner = u \<rparr>
                in (Some e, r @ [e]))),
       repo_update_event_by_id = (\<lambda>r u i q.
          case find (\<lambda>e. stored_id e = i \<and> stored_owner e = u) r of
            None \<Rightarrow> (None, r)
          | Some e \<Rightarrow> (Some (e\<lparr> stored_title := title q \<rparr>),
                       map (\<lambda>x. if stored_id x = i then x\<lparr> stored_title := title q \<rparr> else x) r)),
       repo_delete_event_by_id = (\<lambda>r u i. filter (\<lambda>e. \<not> (stored_id e = i \<and> stored_owner e = u)) r) \<rparr>"

definition messages :: strings where
  "messages = \<lparr> EVENT_IS_EXISTS = ''event is exists'', EVENT_CREATE_ERROR = ''event create error'',
                EVENT_DOES_NOT_EXIST = ''event does not exist'' \<rparr>"

definition two_events :: "event list" where
  "two_events =
     [\<lparr> stored_id = 1, stored_title = ''ride'', stored_owner = 7 \<rparr>,
      \<lparr> stored_id = 2, stored_title = ''rally'', stored_owner = 8 \<rparr>]"

section \<open>The WebSocket session of app/api/routes/events.py\<close>

subsection \<open>Exceptions, the transport and the manager as the handler uses it\<close>

text \<open>
  The handler tells one exception from all the others: \<open>WebSocketDisconnect\<close>.
  \<open>websocket.receive_json()\<close> either returns the decoded value or raises.
\<close>

datatype 'x raised = WebSocketDisconnect | Exception 'x

datatype ('d, 'x) receive_json = Json 'd | Raise "'x raised"

text \<open>
  The handler calls four methods of the manager it is given. Each is a parameter:
  a function on the manager's state \<open>'s\<close> that returns normally (\<open>None\<close>) or raises,
  with the state it leaves behind.
\<close>

record ('c, 's, 'x) connection_manager =
  mgr_connect :: "'c \<Rightarrow> 's \<Rightarrow> 'x raised option \<times> 's"
  mgr_disconnect :: "'c \<Rightarrow> 's \<Rightarrow> 'x raised option \<times> 's"
  mgr_send_personal_message :: "string \<Rightarrow> 'c \<Rightarrow> 's \<Rightarrow> 'x raised option \<times> 's"
  mgr_broadcast :: "string \<Rightarrow> 's \<Rightarrow> 'x raised option \<times> 's"

datatype 'c manager_call =
    Connect 'c
  | Disconnect 'c
  | Send_personal_message string 'c
  | Broadcast string

type_synonym ('c, 's) mgr = "'s \<times> 'c manager_call list"

definition manager_connect ::
  "('c, 's, 'x) connection_manager \<Rightarrow> 'c \<Rightarrow> ('c, 's) mgr \<Rightarrow> 'x raised option \<times> ('c, 's) mgr" where
  "manager_connect M websocket \<sigma> =
     (case mgr_connect M websocket (fst \<sigma>) of
        (r, s') \<Rightarrow> (r, (s', snd \<sigma> @ [Connect websocket])))"

definition manager_disconnect ::
  "('c, 's, 'x) connection_manager \<Rightarrow> 'c \<Rightarrow> ('c, 's) mgr \<Rightarrow> 'x raised option \<times> ('c, 's) mgr" where
  "manager_disconnect M websocket \<sigma> =
     (case mgr_disconnect M websocket (fst \<sigma>) of
        (r, s') \<Rightarrow> (r, (s', snd \<sigma> @ [Disconnect websocket])))"

definition manager_send_personal_message ::
  "('c, 's, 'x) connection_manager \<Rightarrow> string \<Rightarrow> 'c \<Rightarrow> ('c, 's) mgr \<Rightarrow>
   'x raised option \<times> ('c, 's) mgr" where
  "manager_send_personal_message M message websocket \<sigma> =
     (case mgr_send_personal_message M message websocket (fst \<sigma>) of
        (r, s') \<Rightarrow> (r, (s', snd \<sigma> @ [Send_personal_message message websocket])))"

definition manager_broadcast ::
  "('c, 's, 'x) connection_manager \<Rightarrow> string \<Rightarrow> ('c, 's) mgr \<Rightarrow> 'x raised option \<times> ('c, 's) mgr" where
  "manager_broadcast M message \<sigma> =
     (case mgr_broadcast M message (fst \<sigma>) of
        (r, s') \<Rightarrow> (r, (s', snd \<sigma> @ [Broadcast message])))"

subsection \<open>The f-strings\<close>

text \<open>
  \<open>{user.id}\<close> formats an integer in decimal. \<open>{data}\<close> formats whatever JSON value
  was received; its formatting function \<open>str\<close> is a parameter of the handler (on a
  JSON string it is the identity).
\<close>

definition digit :: "nat \<Rightarrow> char" where
  "digit d = ''0123456789'' ! d"

fun str_nat :: "nat \<Rightarrow> string" where
  "str_nat n = (if n < 10 then [digit n] else str_nat (n div 10) @ [digit (n mod 10)])"

declare str_nat.simps [simp del]

definition str_int :: "int \<Rightarrow> string" where
  "str_int i = (if i < 0 then CHR ''-'' # str_nat (nat (- i)) else str_nat (nat i))"

definition you_wrote :: "('d \<Rightarrow> string) \<Rightarrow> 'd \<Rightarrow> string" where
  "you_wrote str data = ''You wrote: '' @ str data"

definition client_says :: "('d \<Rightarrow> string) \<Rightarrow> user \<Rightarrow> 'd \<Rightarrow> string" where
  "client_says str usr data = ''Client #'' @ str_int (user_id usr) @ '' says: '' @ str data"

definition client_left :: "user \<Rightarrow> string" where
  "client_left usr = ''Client #'' @ str_int (user_id usr) @ '' left the chat''"

subsection \<open>The handler, lines 108 to 126\<close>

text \<open>
  One pass through the body of \<open>while True\<close> (lines 121 to 123), given what
  \<open>receive_json\<close> does this time. \<open>None\<close>: the pass completed; \<open>Some e\<close>: it raised \<open>e\<close>.
\<close>

definition loop_body ::
  "('c, 's, 'x) connection_manager \<Rightarrow> ('d \<Rightarrow> string) \<Rightarrow> user \<Rightarrow> 'c \<Rightarrow> ('d, 'x) receive_json \<Rightarrow>
   ('c, 's) mgr \<Rightarrow> 'x raised option \<times> ('c, 's) mgr" where
  "loop_body M str usr websocket rcv \<sigma> =
     (case rcv of
        Raise e \<Rightarrow> (Some e, \<sigma>)
      | Json data \<Rightarrow>
          (case manager_send_personal_message M (you_wrote str data) websocket \<sigma> of
             (Some e, \<sigma>1) \<Rightarrow> (Some e, \<sigma>1)
           | (None, \<sigma>1) \<Rightarrow> manager_broadcast M (client_says str usr data) \<sigma>1))"

text \<open>
  The loop, over the outcomes of the successive \<open>receive_json\<close> calls. It leaves only
  by an exception; when the outcomes run out the task is suspended in
  \<open>receive_json\<close>, which is the result \<open>None\<close>.
\<close>

fun while_True ::
  "('c, 's, 'x) connection_manager \<Rightarrow> ('d \<Rightarrow> string) \<Rightarrow> user \<Rightarrow> 'c \<Rightarrow> ('d, 'x) receive_json list \<Rightarrow>
   ('c, 's) mgr \<Rightarrow> 'x raised option \<times> ('c, 's) mgr" where
  "while_True M str usr websocket [] \<sigma> = (None, \<sigma>)"
| "while_True M str usr websocket (rcv # rcvs) \<sigma> =
     (case loop_body M str usr websocket rcv \<sigma> of
        (Some e, \<sigma>1) \<Rightarrow> (Some e, \<sigma>1)
      | (None, \<sigma>1) \<Rightarrow> while_True M str usr websocket rcvs \<sigma>1)"

datatype 'x ending = Awaiting | Raised "'x raised" | Returned

text \<open>The \<open>except WebSocketDisconnect\<close> clause, lines 125 and 126.\<close>

definition except_WebSocketDisconnect ::
  "('c, 's, 'x) connection_manager \<Rightarrow> user \<Rightarrow> 'c \<Rightarrow> ('c, 's) mgr \<Rightarrow> 'x ending \<times> ('c, 's) mgr" where
  "except_WebSocketDisconnect M usr websocket \<sigma> =
     (case manager_disconnect M websocket \<sigma> of
        (Some e, \<sigma>1) \<Rightarrow> (Raised e, \<sigma>1)
      | (None, \<sigma>1) \<Rightarrow>
          (case manager_broadcast M (client_left usr) \<sigma>1 of
             (Some e, \<sigma>2) \<Rightarrow> (Raised e, \<sigma>2)
           | (None, \<sigma>2) \<Rightarrow> (Returned, \<sigma>2)))"

text \<open>The \<open>try\<close> statement, lines 119 to 126.\<close>

definition try_statement ::
  "('c, 's, 'x) connection_manager \<Rightarrow> ('d \<Rightarrow> string) \<Rightarrow> user \<Rightarrow> 'c \<Rightarrow> ('d, 'x) receive_json list \<Rightarrow>
   ('c, 's) mgr \<Rightarrow> 'x ending \<times> ('c, 's) mgr" where
  "try_statement M str usr websocket rcvs \<sigma> =
     (case while_True M str usr websocket rcvs \<sigma> of
        (None, \<sigma>1) \<Rightarrow> (Awaiting, \<sigma>1)
      | (Some WebSocketDisconnect, \<sigma>1) \<Rightarrow> except_WebSocketDisconnect M usr websocket \<sigma>1
      | (Some (Exception x), \<sigma>1) \<Rightarrow> (Raised (Exception x), \<sigma>1))"

definition websocket_events ::
  "('c, 's, 'x) connection_manager \<Rightarrow> ('d \<Rightarrow> string) \<Rightarrow> 'c \<Rightarrow> user \<Rightarrow> ('d, 'x) receive_json list \<Rightarrow>
   ('c, 's) mgr \<Rightarrow> 'x ending \<times> ('c, 's) mgr" where
  "websocket_events M str websocket usr rcvs \<sigma> =
     (case manager_connect M websocket \<sigma> of
        (Some e, \<sigma>1) \<Rightarrow> (Raised e, \<sigma>1)
      | (None, \<sigma>1) \<Rightarrow> try_statement M str usr websocket rcvs \<sigma>1)"

section \<open>The connection registry\<close>

text \<open>
  Modelled from the spec: the class \<open>ConnectionManager\<close> of
  \<open>app/manager/connection_manager.py\<close> is not among the sources (only its construction
  in \<open>app/manager/events.py\<close> and its calls in the handler are). The definitions below
  follow sections 3, 4.1 and 7 of the specification: the registry is the collection of
  active connections, in which a connection appears at most once; \<open>register\<close> adds a
  connection and is a no-op on one already present; \<open>deregister\<close> removes it if
  present; \<open>send_to\<close> returns a result, \<open>DeliveryError\<close> when the connection's
  transport is not usable; \<open>broadcast\<close> takes a snapshot of the membership and sends
  to each member of it, going on after a failure, and never raises. Whether a
  connection found broken during a broadcast is deregistered is left by the
  specification as a policy choice: it is the flag \<open>prune\<close>.

  The transport is the predicate \<open>usable\<close> together with the list \<open>delivered\<close> of the
  messages that reached a client, in the order they were sent.
\<close>

record 'c registry =
  active :: "'c list"
  delivered :: "('c \<times> string) list"

text \<open>
  Modelled from the spec: the registry as it is created at startup, with no
  connection in it (section 3, lifecycle).
\<close>

definition empty_registry :: "'c registry" where
  "empty_registry = \<lparr> active = [], delivered = [] \<rparr>"

text \<open>
  Modelled from the spec: \<open>register(connection)\<close> of section 4.1, "adds connection to
  the active set", a no-op on a connection already registered, so that no duplicate
  is created.
\<close>

definition register :: "'c \<Rightarrow> 'c registry \<Rightarrow> 'c registry" where
  "register c st = (if c \<in> set (active st) then st else st\<lparr> active := active st @ [c] \<rparr>)"

text \<open>
  Modelled from the spec: \<open>deregister(connection)\<close> of section 4.1, "removes connection
  from the active set if present; no error if absent".
\<close>

definition deregister :: "'c \<Rightarrow> 'c registry \<Rightarrow> 'c registry" where
  "deregister c st = st\<lparr> active := removeAll c (active st) \<rparr>"

text \<open>
  Modelled from the spec: \<open>send_to(connection, message) -> Result\<close> of section 4.1,
  which delivers to that one connection and "fails with DeliveryError if the
  underlying transport for that connection is no longer usable"; the failure is a
  returned value, not an exception.
\<close>

datatype delivery_error = DeliveryError

definition send_to ::
  "('c \<Rightarrow> bool) \<Rightarrow> 'c \<Rightarrow> string \<Rightarrow> 'c registry \<Rightarrow> (delivery_error + unit) \<times> 'c registry" where
  "send_to usable c message st =
     (if usable c then (Inr (), st\<lparr> delivered := delivered st @ [(c, message)] \<rparr>)
      else (Inl DeliveryError, st))"

text \<open>
  Modelled from the spec: \<open>broadcast(message)\<close> of section 4.1. \<open>deliver_all\<close> is the
  pass over the snapshot: a failed delivery is swallowed and the pass goes on with
  the next member; under the pruning policy the broken connection is deregistered.
  \<open>broadcast\<close> takes the snapshot, the active connections at call time.
\<close>

fun deliver_all ::
  "bool \<Rightarrow> ('c \<Rightarrow> bool) \<Rightarrow> string \<Rightarrow> 'c list \<Rightarrow> 'c registry \<Rightarrow> 'c registry" where
  "deliver_all prune usable message [] st = st"
| "deliver_all prune usable message (c # snapshot) st =
     (case send_to usable c message st of
        (Inl DeliveryError, st1) \<Rightarrow>
           deliver_all prune usable message snapshot (if prune then deregister c st1 else st1)
      | (Inr _, st1) \<Rightarrow> deliver_all prune usable message snapshot st1)"

definition broadcast :: "bool \<Rightarrow> ('c \<Rightarrow> bool) \<Rightarrow> string \<Rightarrow> 'c registry \<Rightarrow> 'c registry" where
  "broadcast prune usable message st = deliver_all prune usable message (active st) st"

text \<open>
  Modelled from the spec: the registry as the manager the handler is given (section 2,
  data and control flow): \<open>connect\<close> registers,
  \<open>disconnect\<close> deregisters, \<open>send_personal_message\<close> is \<open>send_to\<close> with its result
  dropped (the handler does not look at it). None of the four raises.
\<close>

definition registry_manager ::
  "bool \<Rightarrow> ('c \<Rightarrow> bool) \<Rightarrow> ('c, 'c registry, 'x) connection_manager" where
  "registry_manager prune usable =
     \<lparr> mgr_connect = (\<lambda>websocket st. (None, register websocket st)),
       mgr_disconnect = (\<lambda>websocket st. (None, deregister websocket st)),
       mgr_send_personal_message = (\<lambda>message websocket st. (None, snd (send_to usable websocket message st))),
       mgr_broadcast = (\<lambda>message st. (None, broadcast prune usable message st)) \<rparr>"

text \<open>What one connection received, in order.\<close>

definition inbox :: "'c \<Rightarrow> 'c registry \<Rightarrow> string list" where
  "inbox c st = map snd (filter (\<lambda>p. fst p = c) (delivered st))"

subsection \<open>Replaying register and deregister calls\<close>

datatype 'c registry_call = Register 'c | Deregister 'c

fun replay :: "'c registry_call list \<Rightarrow> 'c registry \<Rightarrow> 'c registry" where
  "replay [] st = st"
| "replay (Register c # calls) st = replay calls (register c st)"
| "replay (Deregister c # calls) st = replay calls (deregister c st)"

text \<open>
  The registrations of \<open>c\<close> net of its matching deregistrations, over the calls
  replayed from the registry \<open>st\<close>. A call counts when it takes effect: \<open>Register c\<close>
  on a registry that does not hold \<open>c\<close> adds one (on a registry that holds \<open>c\<close> it is
  a no-op and registers nothing), and \<open>Deregister c\<close> on a registry that holds \<open>c\<close>,
  the deregistration that matches a registration, takes one away (on a registry that
  does not hold \<open>c\<close> it is a no-op too).
\<close>

fun net_registrations :: "'c \<Rightarrow> 'c registry_call list \<Rightarrow> 'c registry \<Rightarrow> int" where
  "net_registrations c [] st = 0"
| "net_registrations c (Register d # calls) st =
     (if d = c \<and> c \<notin> set (active st) then 1 else 0) + net_registrations c calls (register d st)"
| "net_registrations c (Deregister d # calls) st =
     (if d = c \<and> c \<in> set (active st) then - 1 else 0) + net_registrations c calls (deregister d st)"

subsection \<open>Auxiliary notions for the statements\<close>

text \<open>What a call added to \<open>delivered\<close>.\<close>

definition newly_delivered :: "'c registry \<Rightarrow> 'c registry \<Rightarrow> ('c \<times> string) list" where
  "newly_delivered before after = drop (length (delivered before)) (delivered after)"

text \<open>
  The manager after the handler's line 117 has run for connection \<open>a\<close> and then for
  connection \<open>b\<close>, starting from the empty registry.
\<close>

definition two_clients ::
  "('c, 'c registry, 'x) connection_manager \<Rightarrow> 'c \<Rightarrow> 'c \<Rightarrow> ('c, 'c registry) mgr" where
  "two_clients M a b = snd (manager_connect M b (snd (manager_connect M a (empty_registry, []))))"

section \<open>Properties of the CRUD handlers\<close>

lemmas await_defs = await_get_event_by_title_def await_get_event_by_id_def await_get_events_def
  await_create_event_by_user_id_def await_update_event_by_id_def await_delete_event_by_id_def

lemmas status_defs = HTTP_200_OK_def HTTP_400_BAD_REQUEST_def HTTP_404_NOT_FOUND_def
  HTTP_409_CONFLICT_def

text \<open>
  Claim C4. When the repository finds an event with the title of the create request,
  \<open>create_event\<close> raises 409 with the message \<open>EVENT_IS_EXISTS\<close>; the one call it has made
  is the title query, so the create operation is never called and the repository state
  is the one it started from. When the title query finds nothing and the create
  operation returns no record, it raises 400 with the message \<open>EVENT_CREATE_ERROR\<close>.
\<close>

theorem create_event_conflict:
  "(repo_get_event_by_title R (fst \<sigma>) (title request) \<noteq> None \<longrightarrow>
      create_event R S request usr \<sigma> =
        (Inl (HTTPException 409 (EVENT_IS_EXISTS S)),
         (fst \<sigma>, snd \<sigma> @ [Get_event_by_title (title request)]))) \<and>
   (repo_get_event_by_title R (fst \<sigma>) (title request) = None \<and>
    fst (repo_create_event_by_user_id R (fst \<sigma>) (user_id usr) request) = None \<longrightarrow>
      fst (create_event R S request usr \<sigma>) =
        Inl (HTTPException 400 (EVENT_CREATE_ERROR S)))"
  by (auto simp: create_event_def await_defs status_defs split: option.splits prod.splits)

theorem create_event_conflict_witness:
  "create_event memory_repository messages \<lparr> title = ''ride'' \<rparr> \<lparr> user_id = 7 \<rparr> (two_events, []) =
     (Inl (HTTPException 409 ''event is exists''), (two_events, [Get_event_by_title ''ride''])) \<and>
   fst (create_event memory_repository messages \<lparr> title = [] \<rparr> \<lparr> user_id = 7 \<rparr> (two_events, [])) =
     Inl (HTTPException 400 ''event create error'')"
  using create_event_conflict [of memory_repository "(two_events, [])" "\<lparr> title = ''ride'' \<rparr>"
      messages "\<lparr> user_id = 7 \<rparr>"]
    create_event_conflict [of memory_repository "(two_events, [])" "\<lparr> title = [] \<rparr>"
      messages "\<lparr> user_id = 7 \<rparr>"]
  by (simp add: memory_repository_def two_events_def messages_def)

text \<open>
  Claim C5. When the repository's \<open>get_event_by_id\<close> returns the absence indicator,
  \<open>delete_event_by_id\<close> raises 409 with the message \<open>EVENT_DOES_NOT_EXIST\<close> after that one
  query: the delete operation is never called and the state is unchanged. Otherwise
  it calls the delete operation for the caller and the id and returns the empty
  \<open>WrapperResponse\<close>, status 200.
\<close>

theorem delete_event_by_id_missing:
  "(repo_get_event_by_id R (fst \<sigma>) event_id = None \<longrightarrow>
      delete_event_by_id R S event_id usr \<sigma> =
        (Inl (HTTPException 409 (EVENT_DOES_NOT_EXIST S)),
         (fst \<sigma>, snd \<sigma> @ [Get_event_by_id event_id]))) \<and>
   (repo_get_event_by_id R (fst \<sigma>) event_id \<noteq> None \<longrightarrow>
      delete_event_by_id R S event_id usr \<sigma> =
        (Inr (WrapperResponse None),
         (repo_delete_event_by_id R (fst \<sigma>) (user_id usr) event_id,
          snd \<sigma> @ [Get_event_by_id event_id, Delete_event_by_id (user_id usr) event_id])) \<and>
      response_status (fst (delete_event_by_id R S event_id usr \<sigma>)) = 200)"
  by (auto simp: delete_event_by_id_def await_defs status_defs split: option.splits)

theorem delete_event_by_id_missing_witness:
  "delete_event_by_id memory_repository messages 5 \<lparr> user_id = 7 \<rparr> (two_events, []) =
     (Inl (HTTPException 409 ''event does not exist''), (two_events, [Get_event_by_id 5])) \<and>
   delete_event_by_id memory_repository messages 1 \<lparr> user_id = 7 \<rparr> (two_events, []) =
     (Inr (WrapperResponse None),
      ([\<lparr> stored_id = 2, stored_title = ''rally'', stored_owner = 8 \<rparr>],
       [Get_event_by_id 1, Delete_event_by_id 7 1]))"
  using delete_event_by_id_missing [of memory_repository "(two_events, [])" 5 messages
      "\<lparr> user_id = 7 \<rparr>"]
    delete_event_by_id_missing [of memory_repository "(two_events, [])" 1 messages
      "\<lparr> user_id = 7 \<rparr>"]
  by (simp add: memory_repository_def two_events_def messages_def)

text \<open>
  Claim C6. \<open>get_event_by_id\<close> raises exactly when the repository's \<open>get_event_by_id\<close>
  returns the absence indicator, and what it raises then is 404 with the message
  \<open>EVENT_DOES_NOT_EXIST\<close>; when the repository returns a record, the handler returns, with
  status 200, the \<open>WrapperResponse\<close> whose payload is the \<open>EventResponse\<close> of that record.
\<close>

theorem get_event_by_id_not_found:
  "((\<exists>e. fst (get_event_by_id R S event_id usr \<sigma>) = Inl e) \<longleftrightarrow>
      repo_get_event_by_id R (fst \<sigma>) event_id = None) \<and>
   (repo_get_event_by_id R (fst \<sigma>) event_id = None \<longrightarrow>
      fst (get_event_by_id R S event_id usr \<sigma>) =
        Inl (HTTPException 404 (EVENT_DOES_NOT_EXIST S))) \<and>
   (\<forall>event. repo_get_event_by_id R (fst \<sigma>) event_id = Some event \<longrightarrow>
      fst (get_event_by_id R S event_id usr \<sigma>) =
        Inr (WrapperResponse (Some (EventResponse event))) \<and>
      response_status (fst (get_event_by_id R S event_id usr \<sigma>)) = 200)"
  by (auto simp: get_event_by_id_def await_defs status_defs split: option.splits)

theorem get_event_by_id_not_found_witness:
  "fst (get_event_by_id memory_repository messages 5 \<lparr> user_id = 7 \<rparr> (two_events, [])) =
     Inl (HTTPException 404 ''event does not exist'') \<and>
   fst (get_event_by_id memory_repository messages 2 \<lparr> user_id = 7 \<rparr> (two_events, [])) =
     Inr (WrapperResponse (Some (EventResponse
       \<lparr> stored_id = 2, stored_title = ''rally'', stored_owner = 8 \<rparr>)))"
  using get_event_by_id_not_found [of memory_repository messages 5 "\<lparr> user_id = 7 \<rparr>"
      "(two_events, [])"]
    get_event_by_id_not_found [of memory_repository messages 2 "\<lparr> user_id = 7 \<rparr>"
      "(two_events, [])"]
  by (simp add: memory_repository_def two_events_def messages_def)

text \<open>
  Claim C9. In \<open>update_event_by_id\<close> the title query comes first and is asked with the
  title alone: whenever it finds an event, whatever \<open>event_id\<close> is (the id of the very
  event that carries the title, or an id no event has), the handler raises 409 with the
  message \<open>EVENT_IS_EXISTS\<close>, and the title query is the only call it has made: no
  existence check, no update. In the example the event 1 is renamed to the title it
  already has, then an unknown id 99 is given the same title: both answer 409, while
  the id 99 with a fresh title answers 404.
\<close>

theorem update_event_by_id_conflict_first:
  "repo_get_event_by_title R (fst \<sigma>) (title request) \<noteq> None \<Longrightarrow>
   update_event_by_id R S request event_id usr \<sigma> =
     (Inl (HTTPException 409 (EVENT_IS_EXISTS S)),
      (fst \<sigma>, snd \<sigma> @ [Get_event_by_title (title request)]))"
  by (auto simp: update_event_by_id_def await_defs status_defs split: option.splits)

theorem update_event_by_id_conflict_first_witness:
  "update_event_by_id memory_repository messages \<lparr> title = ''ride'' \<rparr> 1 \<lparr> user_id = 7 \<rparr>
       (two_events, []) =
     (Inl (HTTPException 409 ''event is exists''), (two_events, [Get_event_by_title ''ride''])) \<and>
   update_event_by_id memory_repository messages \<lparr> title = ''ride'' \<rparr> 99 \<lparr> user_id = 7 \<rparr>
       (two_events, []) =
     (Inl (HTTPException 409 ''event is exists''), (two_events, [Get_event_by_title ''ride''])) \<and>
   fst (update_event_by_id memory_repository messages \<lparr> title = ''tour'' \<rparr> 99 \<lparr> user_id = 7 \<rparr>
       (two_events, [])) =
     Inl (HTTPException 404 ''event does not exist'')"
  using update_event_by_id_conflict_first [of memory_repository "(two_events, [])"
      "\<lparr> title = ''ride'' \<rparr>" messages 1 "\<lparr> user_id = 7 \<rparr>"]
    update_event_by_id_conflict_first [of memory_repository "(two_events, [])"
      "\<lparr> title = ''ride'' \<rparr>" messages 99 "\<lparr> user_id = 7 \<rparr>"]
  by (simp add: memory_repository_def two_events_def messages_def update_event_by_id_def
      await_defs status_defs)

section \<open>Properties of the connection registry\<close>


lemma delivered_deregister: "delivered (deregister c st) = delivered st"
  by (simp add: deregister_def)

lemma active_deregister: "active (deregister c st) = removeAll c (active st)"
  by (simp add: deregister_def)

text \<open>
  A broadcast pass appends one delivery for each usable member of the snapshot, in
  the snapshot's order, whatever the pruning policy does to the registry meanwhile.
\<close>

lemma delivered_deliver_all:
  "delivered (deliver_all prune usable message snapshot st) =
     delivered st @ map (\<lambda>c. (c, message)) (filter usable snapshot)"
  by (induction snapshot arbitrary: st) (simp_all add: send_to_def delivered_deregister)


lemma distinct_deliver_all:
  "distinct (active st) \<Longrightarrow> distinct (active (deliver_all prune usable message snapshot st))"
  by (induction snapshot arbitrary: st)
    (simp_all add: send_to_def active_deregister distinct_removeAll)


lemma count_list_deliveries:
  "distinct cs \<Longrightarrow>
   count_list (map (\<lambda>c. (c, message)) (filter usable cs)) (d, m) =
     (if d \<in> set cs \<and> usable d \<and> m = message then 1 else 0)"
  by (induction cs) auto

text \<open>
  From any registry without duplicates: replaying keeps it without duplicates, and
  a connection is in the result exactly when being there at the start (one, or none)
  plus its net registrations is positive.
\<close>

lemma replay_invariant:
  "distinct (active st) \<Longrightarrow>
   distinct (active (replay calls st)) \<and>
   (c \<in> set (active (replay calls st)) \<longleftrightarrow>
      0 < (if c \<in> set (active st) then 1 else 0) + net_registrations c calls st)"
proof (induction calls arbitrary: st)
  case Nil
  then show ?case by simp
next
  case (Cons call calls)
  show ?case
  proof (cases call)
    case (Register d)
    have dist: "distinct (active (register d st))"
      using Cons.prems by (simp add: register_def)
    have step: "(if c \<in> set (active (register d st)) then 1 else 0) =
        (if c \<in> set (active st) then 1 else 0) + (if d = c \<and> c \<notin> set (active st) then 1 else (0::int))"
      by (auto simp: register_def)
    from Cons.IH [OF dist] step Register show ?thesis
      by (simp add: add.assoc)
  next
    case (Deregister d)
    have dist: "distinct (active (deregister d st))"
      using Cons.prems by (simp add: deregister_def distinct_removeAll)
    have step: "(if c \<in> set (active (deregister d st)) then 1 else 0) =
        (if c \<in> set (active st) then 1 else 0) + (if d = c \<and> c \<in> set (active st) then - 1 else (0::int))"
      by (auto simp: deregister_def)
    from Cons.IH [OF dist] step Deregister show ?thesis
      by (simp add: add.assoc)
  qed
qed

text \<open>
  Claim C1. Replaying any sequence of register and deregister calls from the empty
  registry leaves a registry in which no connection appears twice, and a connection
  is in it exactly when its registrations net of its matching deregistrations are
  positive. Every prefix of a sequence is a sequence, so the registry is free of
  duplicates after every call; in particular registering a connection that is
  already registered creates no duplicate.
\<close>

theorem replay_active_set:
  "distinct (active (replay calls empty_registry)) \<and>
   (c \<in> set (active (replay calls empty_registry)) \<longleftrightarrow>
      0 < net_registrations c calls empty_registry)"
  using replay_invariant [of empty_registry calls c] by (simp add: empty_registry_def)

theorem replay_active_set_witness:
  "distinct (active (replay [Register (1::nat), Register 1, Deregister 1, Register 2, Register 2]
      empty_registry)) \<and>
   active (replay [Register (1::nat), Register 1, Deregister 1, Register 2, Register 2]
      empty_registry) = [2] \<and>
   net_registrations (1::nat) [Register 1, Register 1, Deregister 1, Register 2, Register 2]
      empty_registry = 0 \<and>
   net_registrations (2::nat) [Register 1, Register 1, Deregister 1, Register 2, Register 2]
      empty_registry = 1"
  using replay_active_set [of "[Register (1::nat), Register 1, Deregister 1, Register 2, Register 2]" 1]
  by (simp add: empty_registry_def register_def deregister_def)

text \<open>
  Claim C2. On a registry without duplicates, \<open>broadcast\<close> keeps what was delivered
  before and adds, for every connection \<open>c\<close> and text \<open>m\<close>, exactly one delivery of \<open>m\<close> to
  \<open>c\<close> when \<open>c\<close> is in the active set at call time, its transport is usable and \<open>m\<close> is
  the message, and none otherwise. So a member whose delivery fails takes nothing
  away from the other members, under either pruning policy; and the call returns
  normally to the handler.
\<close>

theorem broadcast_best_effort:
  assumes "distinct (active st)"
  shows "take (length (delivered st)) (delivered (broadcast prune usable message st)) = delivered st \<and>
    count_list (newly_delivered st (broadcast prune usable message st)) (c, m) =
      (if c \<in> set (active st) \<and> usable c \<and> m = message then 1 else 0) \<and>
    fst (mgr_broadcast (registry_manager prune usable) message st) = None"
  using assms
  by (simp add: broadcast_def delivered_deliver_all newly_delivered_def count_list_deliveries
      registry_manager_def)

theorem broadcast_best_effort_witness:
  "distinct [1::nat, 2, 3] \<and>
   delivered (broadcast True (\<lambda>c. c \<noteq> 2) ''m'' \<lparr> active = [1::nat, 2, 3], delivered = [] \<rparr>) =
     [(1, ''m''), (3, ''m'')] \<and>
   count_list (newly_delivered \<lparr> active = [1::nat, 2, 3], delivered = [] \<rparr>
      (broadcast True (\<lambda>c. c \<noteq> 2) ''m'' \<lparr> active = [1::nat, 2, 3], delivered = [] \<rparr>)) (3, ''m'') = 1"
  using broadcast_best_effort [of "\<lparr> active = [1::nat, 2, 3], delivered = [] \<rparr>" True
      "\<lambda>c. c \<noteq> 2" "''m''" 3 "''m''"]
  by (simp add: broadcast_def send_to_def deregister_def newly_delivered_def registry_manager_def)

text \<open>
  Claim C7. Deregistering a connection that is not in the active set returns the
  registry it was given, and the manager's \<open>disconnect\<close> returns normally with it.
\<close>

theorem deregister_absent:
  "c \<notin> set (active st) \<Longrightarrow>
   deregister c st = st \<and> mgr_disconnect (registry_manager prune usable) c st = (None, st)"
  by (simp add: deregister_def registry_manager_def)

theorem deregister_absent_witness:
  "(3::nat) \<notin> set (active \<lparr> active = [1, 2], delivered = [] \<rparr>) \<and>
   deregister (3::nat) \<lparr> active = [1, 2], delivered = [] \<rparr> = \<lparr> active = [1, 2], delivered = [] \<rparr>"
  using deregister_absent [of "3::nat" "\<lparr> active = [1, 2], delivered = [] \<rparr>" True "\<lambda>_. True"]
  by (simp add: registry_manager_def)

section \<open>Properties of the WebSocket session\<close>

lemmas manager_defs = manager_connect_def manager_disconnect_def
  manager_send_personal_message_def manager_broadcast_def



text \<open>
  The loop keeps nothing from one pass to the next but the manager, so a session can
  be followed one batch of received messages at a time, other sessions running in
  between.
\<close>

lemma while_True_append:
  "while_True M str usr websocket (rcvs1 @ rcvs2) \<sigma> =
     (case while_True M str usr websocket rcvs1 \<sigma> of
        (None, \<sigma>1) \<Rightarrow> while_True M str usr websocket rcvs2 \<sigma>1
      | (Some e, \<sigma>1) \<Rightarrow> (Some e, \<sigma>1))"
  by (induction rcvs1 arbitrary: \<sigma>) (auto split: prod.splits option.splits)

lemma try_statement_resume:
  "try_statement M str usr websocket rcvs1 \<sigma> = (Awaiting, \<sigma>1) \<Longrightarrow>
   try_statement M str usr websocket (rcvs1 @ rcvs2) \<sigma> = try_statement M str usr websocket rcvs2 \<sigma>1"
  by (auto simp: try_statement_def while_True_append except_WebSocketDisconnect_def
      split: prod.splits option.splits raised.splits)





text \<open>
  The disconnect signal, for comparison: when the loop ends by \<open>WebSocketDisconnect\<close>
  the handler goes through the \<open>except\<close> clause, which calls \<open>disconnect\<close> and then
  broadcasts the departure notice.
\<close>

lemma disconnect_signal_deregisters:
  assumes "manager_connect M websocket \<sigma> = (None, \<sigma>1)"
    and "while_True M str usr websocket rcvs \<sigma>1 = (Some WebSocketDisconnect, \<sigma>2)"
    and "mgr_disconnect M websocket (fst \<sigma>2) = (None, s3)"
    and "mgr_broadcast M (client_left usr) s3 = (None, s4)"
  shows "websocket_events M str websocket usr rcvs \<sigma> =
    (Returned, (s4, snd \<sigma>2 @ [Disconnect websocket, Broadcast (client_left usr)]))"
  using assms
  by (simp add: websocket_events_def try_statement_def except_WebSocketDisconnect_def
      manager_disconnect_def manager_broadcast_def)

text \<open>
  Claim C3. With the registry as the manager and two distinct connections \<open>a\<close> and \<open>b\<close>
  whose transports are usable: after \<open>a\<close> and then \<open>b\<close> have connected the active set is
  \<open>{a, b}\<close>. When \<open>a\<close>'s session receives \<open>data\<close>, \<open>a\<close> gets "You wrote: data" and then
  "Client #A says: data", and \<open>b\<close> gets "Client #A says: data": the broadcast includes the
  sender. That session is then waiting for its next message. When \<open>b\<close>'s session
  receives the disconnect signal, it returns, the active set is \<open>{a}\<close>, \<open>a\<close> has
  received "Client #B left the chat" in addition and \<open>b\<close> has received nothing more.
\<close>

theorem chat_scenario:
  assumes "a \<noteq> b" and "usable a" and "usable b" and "M = registry_manager prune usable"
  shows "set (active (fst (two_clients M a b))) = {a, b} \<and>
    (case try_statement M str usrA a [Json data] (two_clients M a b) of (r1, \<sigma>1) \<Rightarrow>
       r1 = Awaiting \<and>
       set (active (fst \<sigma>1)) = {a, b} \<and>
       inbox a (fst \<sigma>1) = [you_wrote str data, client_says str usrA data] \<and>
       inbox b (fst \<sigma>1) = [client_says str usrA data] \<and>
       (case try_statement M str usrB b [Raise WebSocketDisconnect] \<sigma>1 of (r2, \<sigma>2) \<Rightarrow>
          r2 = Returned \<and>
          set (active (fst \<sigma>2)) = {a} \<and>
          inbox a (fst \<sigma>2) = [you_wrote str data, client_says str usrA data, client_left usrB] \<and>
          inbox b (fst \<sigma>2) = [client_says str usrA data]))"
  using assms
  by (auto simp: two_clients_def try_statement_def loop_body_def except_WebSocketDisconnect_def
      manager_defs registry_manager_def register_def deregister_def broadcast_def send_to_def
      inbox_def empty_registry_def)

theorem chat_scenario_witness:
  "(10::nat) \<noteq> 20 \<and>
   active (fst (two_clients (registry_manager False (\<lambda>c. True) :: (nat, nat registry, unit) connection_manager) 10 20)) = [10, 20] \<and>
   (case try_statement (registry_manager False (\<lambda>c. True) :: (nat, nat registry, unit) connection_manager)
           (\<lambda>s. s) \<lparr> user_id = 1 \<rparr> 10 [Json ''hi'']
           (two_clients (registry_manager False (\<lambda>c. True)) 10 20) of (r1, \<sigma>1) \<Rightarrow>
      r1 = Awaiting \<and>
      inbox 10 (fst \<sigma>1) = [''You wrote: hi'', ''Client #1 says: hi''] \<and>
      inbox 20 (fst \<sigma>1) = [''Client #1 says: hi''] \<and>
      (case try_statement (registry_manager False (\<lambda>c. True) :: (nat, nat registry, unit) connection_manager)
              (\<lambda>s. s) \<lparr> user_id = 2 \<rparr> 20 [Raise WebSocketDisconnect] \<sigma>1 of (r2, \<sigma>2) \<Rightarrow>
         r2 = Returned \<and>
         active (fst \<sigma>2) = [10] \<and>
         inbox 10 (fst \<sigma>2) = [''You wrote: hi'', ''Client #1 says: hi'', ''Client #2 left the chat''] \<and>
         inbox 20 (fst \<sigma>2) = [''Client #1 says: hi'']))"
proof -
  have one: "str_int 1 = ''1''" and two: "str_int 2 = ''2''"
    by (simp_all add: str_int_def str_nat.simps digit_def)
  from chat_scenario [where a = "10::nat" and b = 20 and usable = "\<lambda>c. True" and prune = False
      and M = "registry_manager False (\<lambda>c. True) :: (nat, nat registry, unit) connection_manager"
      and str = "\<lambda>s. s" and usrA = "\<lparr> user_id = 1 \<rparr>" and data = "''hi''"
      and usrB = "\<lparr> user_id = 2 \<rparr>"]
  show ?thesis
    by (simp add: two_clients_def try_statement_def loop_body_def except_WebSocketDisconnect_def
        manager_defs registry_manager_def register_def deregister_def broadcast_def send_to_def
        inbox_def empty_registry_def you_wrote_def client_says_def client_left_def one two)
qed





end
